theory Spec2Isabelle
  imports Main "HOL-Library.Char_ord" "HOL-Library.List_Lexorder"
begin

section \<open>Python values and errors\<close>

text \<open>
  The notebook \<^verbatim>\<open>notebooks/00-etl.ipynb\<close> is a sequence of cells over pandas
  frames.  Every exception a modelled cell can raise is a value of \<open>py_error\<close>; a cell
  that may raise returns \<open>py_error + 'a\<close> with \<open>Inl\<close> for the exception.
\<close>

datatype py_error =
    ZeroDivisionError
  | KeyError string
  | TypeError
  | ValueError
  | AssertionError string
  | IntCastingNaNError

definition bind_err :: "'e + 'a \<Rightarrow> ('a \<Rightarrow> 'e + 'b) \<Rightarrow> 'e + 'b" where
  "bind_err r f = (case r of Inl e \<Rightarrow> Inl e | Inr x \<Rightarrow> f x)"

section \<open>Chunked output of the spatial signatures (Load cell)\<close>

text \<open>
  \<^verbatim>\<open>
  chunk_size = 6_000
  n_chunks = len(ss) // chunk_size + 1
  for i in range(n_chunks):
      chunk = ss.iloc[i * chunk_size : (i + 1) * chunk_size]
      chunk_num = i + 1
      ...
      chunk.to_parquet(file_path, index=False, compression="gzip")
  \<close>
  The rows of \<open>ss\<close> are a list; \<open>chunk_size\<close> is a Python integer, so the floor
  division and the slice bounds are written over \<open>int\<close>.  A slice with integer bounds
  clamps them to the length, a negative bound counting from the end.
\<close>

definition slice_bound :: "nat \<Rightarrow> int \<Rightarrow> nat" where
  "slice_bound n i = (if i < 0 then nat (max (i + int n) 0) else min (nat i) n)"

definition iloc_slice :: "int \<Rightarrow> int \<Rightarrow> 'a list \<Rightarrow> 'a list" where
  "iloc_slice start stop xs =
     drop (slice_bound (length xs) start) (take (slice_bound (length xs) stop) xs)"

definition py_range :: "int \<Rightarrow> int list" where
  "py_range n = map int [0..<nat n]"

definition n_chunks :: "nat \<Rightarrow> int \<Rightarrow> py_error + int" where
  "n_chunks len chunk_size =
     (if chunk_size = 0 then Inl ZeroDivisionError else Inr (int len div chunk_size + 1))"

text \<open>
  The loop writes one file per iteration; the model returns what is written, in order:
  the chunk number and the rows of the chunk.
\<close>

definition partition_rows :: "'a list \<Rightarrow> int \<Rightarrow> py_error + (int \<times> 'a list) list" where
  "partition_rows ss chunk_size =
     (case n_chunks (length ss) chunk_size of
        Inl e \<Rightarrow> Inl e
      | Inr n \<Rightarrow>
          Inr (map (\<lambda>i. (i + 1, iloc_slice (i * chunk_size) ((i + 1) * chunk_size) ss))
                 (py_range n)))"

text \<open>The number of partitions the specification asks for.\<close>

definition ceil_div :: "nat \<Rightarrow> nat \<Rightarrow> nat" where
  "ceil_div n k = (n + k - 1) div k"

section \<open>Strings\<close>

text \<open>
  A Python string is modelled as the list of its code points, each below 256 (one
  \<open>char\<close> per code point).  On this range \<^verbatim>\<open>str.lower\<close> moves \<open>A\<close>..\<open>Z\<close> and
  the Latin-1 capitals 192..222 (without the multiplication sign 215) up by 32, and the
  white space of the regular expression class s and of \<^verbatim>\<open>str.strip\<close> is 9..13, 28..32, 133 and 160.
\<close>

definition is_space :: "char \<Rightarrow> bool" where
  "is_space c = (let n = (of_char c :: nat)
                 in (9 \<le> n \<and> n \<le> 13) \<or> (28 \<le> n \<and> n \<le> 32) \<or> n = 133 \<or> n = 160)"

definition lower_char :: "char \<Rightarrow> char" where
  "lower_char c = (let n = (of_char c :: nat)
                   in if (65 \<le> n \<and> n \<le> 90) \<or> (192 \<le> n \<and> n \<le> 222 \<and> n \<noteq> 215)
                      then char_of (n + 32) else c)"

definition str_lower :: "string \<Rightarrow> string" where
  "str_lower s = map lower_char s"

text \<open>
  \<^verbatim>\<open>s.replace(old, new)\<close>: every occurrence of \<open>old\<close>, found from the left without
  overlap; an empty \<open>old\<close> puts \<open>new\<close> before every character and at the end.
\<close>

function str_replace :: "string \<Rightarrow> string \<Rightarrow> string \<Rightarrow> string" where
  "str_replace old new s =
     (if old = [] then new @ concat (map (\<lambda>c. c # new) s)
      else if s = [] then []
      else if take (length old) s = old
           then new @ str_replace old new (drop (length old) s)
           else hd s # str_replace old new (tl s))"
  by pat_completeness auto
termination
  by (relation "measure (\<lambda>(old, new, s). length s)") auto

declare str_replace.simps [simp del]

text \<open>\<^verbatim>\<open>re.sub\<close> with the pattern for one or more white-space characters and the
  replacement of one space: every maximal run of white space becomes one space.\<close>

function re_sub_ws :: "string \<Rightarrow> string" where
  "re_sub_ws [] = []"
| "re_sub_ws (c # cs) =
     (if is_space c then CHR '' '' # re_sub_ws (dropWhile is_space cs)
      else c # re_sub_ws cs)"
  by pat_completeness auto
termination
  by (relation "measure length") (auto simp: length_dropWhile_le less_Suc_eq_le)

definition str_strip :: "string \<Rightarrow> string" where
  "str_strip s = rev (dropWhile is_space (rev (dropWhile is_space s)))"

subsection \<open>The column-name rules of the notebook\<close>


definition clean_sheet_column :: "string \<Rightarrow> string" where
  "clean_sheet_column c = str_replace '' '' ''_'' (str_lower c)"

definition clean_env_column :: "string \<Rightarrow> string" where
  "clean_env_column c =
     str_replace '')'' [] (str_replace ''('' [] (str_replace '' '' ''_'' (str_lower c)))"

text \<open>
  The five rules of the specification's Column Normalizer, in its order: collapse runs
  of white space, trim, lower-case, spaces to underscores, strip parentheses.  This
  definition follows the specification; the three above follow the notebook.
\<close>

definition normalize_spec :: "string \<Rightarrow> string" where
  "normalize_spec x =
     str_replace '')'' [] (str_replace ''('' []
       (str_replace '' '' ''_'' (str_lower (str_strip (re_sub_ws x)))))"

section \<open>Frames\<close>

text \<open>
  A pandas frame is its list of column labels and its rows, each row holding one cell
  per label, in the labels' order.  A cell is null (NaN/None), a string, an integer or
  any other value (a float, a geometry).  Rows carry the default index 0, 1, ..., which
  every frame of the notebook has, so a row label is the row's position.  A label is
  looked up at its first occurrence.
\<close>

datatype 'a cell = Null | Str string | Num int | Obj 'a

record 'a frame =
  columns :: "string list"
  rows :: "'a cell list list"

definition cell_of :: "string list \<Rightarrow> 'a cell list \<Rightarrow> string \<Rightarrow> 'a cell" where
  "cell_of cols row c = (case map_of (zip cols row) c of Some v \<Rightarrow> v | None \<Rightarrow> Null)"

definition column :: "'a frame \<Rightarrow> string \<Rightarrow> 'a cell list" where
  "column df c = map (\<lambda>r. cell_of (columns df) r c) (rows df)"

text \<open>\<^verbatim>\<open>df[c]\<close> raises KeyError for a label the frame does not have.\<close>

definition getitem :: "'a frame \<Rightarrow> string \<Rightarrow> py_error + 'a cell list" where
  "getitem df c = (if c \<in> set (columns df) then Inr (column df c) else Inl (KeyError c))"

text \<open>
  \<^verbatim>\<open>df[c] = values\<close> and \<^verbatim>\<open>df.assign(c=values)\<close>: the column is replaced where the
  label exists and added at the end otherwise.
\<close>

definition set_column :: "string \<Rightarrow> 'a cell list \<Rightarrow> 'a frame \<Rightarrow> 'a frame" where
  "set_column c vals df =
     (let cols' = (if c \<in> set (columns df) then columns df else columns df @ [c])
      in \<lparr>columns = cols',
          rows = map (\<lambda>(r, v). map (\<lambda>k. if k = c then v else cell_of (columns df) r k) cols')
                   (zip (rows df) vals)\<rparr>)"

definition assign_const :: "string \<Rightarrow> 'a cell \<Rightarrow> 'a frame \<Rightarrow> 'a frame" where
  "assign_const c v df = set_column c (replicate (length (rows df)) v) df"

text \<open>\<^verbatim>\<open>df[[c1, ..., cn]]\<close> raises KeyError when one of the labels is missing.\<close>

definition select :: "string list \<Rightarrow> 'a frame \<Rightarrow> py_error + 'a frame" where
  "select cs df =
     (case filter (\<lambda>c. c \<notin> set (columns df)) cs of
        c # _ \<Rightarrow> Inl (KeyError c)
      | [] \<Rightarrow> Inr \<lparr>columns = cs, rows = map (\<lambda>r. map (cell_of (columns df) r) cs) (rows df)\<rparr>)"

text \<open>\<^verbatim>\<open>df.columns = [f(c) for c in df.columns]\<close> and \<^verbatim>\<open>df.rename(columns={...})\<close>.\<close>

definition relabel :: "(string \<Rightarrow> string) \<Rightarrow> 'a frame \<Rightarrow> 'a frame" where
  "relabel f df = \<lparr>columns = map f (columns df), rows = rows df\<rparr>"

definition rename_columns :: "(string \<times> string) list \<Rightarrow> 'a frame \<Rightarrow> 'a frame" where
  "rename_columns d df =
     relabel (\<lambda>c. case map_of d c of Some c' \<Rightarrow> c' | None \<Rightarrow> c) df"

text \<open>\<^verbatim>\<open>df.iloc[:, n:]\<close> drops the first \<open>n\<close> columns by position.\<close>

definition iloc_cols :: "nat \<Rightarrow> 'a frame \<Rightarrow> 'a frame" where
  "iloc_cols n df = \<lparr>columns = drop n (columns df), rows = map (drop n) (rows df)\<rparr>"

text \<open>
  \<^verbatim>\<open>pd.concat(frames, ignore_index=True)\<close>: the labels are the union of the frames'
  labels in order of first appearance, the rows follow frame after frame, and a row has
  null where its frame lacks the label.
\<close>

definition ordered_union :: "string list \<Rightarrow> string list" where
  "ordered_union cs = rev (remdups (rev cs))"

definition pd_concat :: "'a frame list \<Rightarrow> 'a frame" where
  "pd_concat dfs =
     (let cols = ordered_union (concat (map columns dfs))
      in \<lparr>columns = cols,
          rows = concat (map (\<lambda>df. map (\<lambda>r. map (cell_of (columns df) r) cols) (rows df)) dfs)\<rparr>)"

text \<open>
  \<^verbatim>\<open>df.loc[0] = {...}\<close>: the dictionary is aligned on the labels, a label without an
  entry gets null; the row labelled 0 is replaced, and added when the frame has no row.
\<close>

definition loc0_set :: "(string \<times> 'a cell) list \<Rightarrow> 'a frame \<Rightarrow> 'a frame" where
  "loc0_set d df =
     (let r = map (\<lambda>k. case map_of d k of Some v \<Rightarrow> v | None \<Rightarrow> Null) (columns df)
      in \<lparr>columns = columns df,
          rows = (case rows df of [] \<Rightarrow> [r] | _ # rs \<Rightarrow> r # rs)\<rparr>)"

text \<open>
  \<^verbatim>\<open>left.merge(right, on=key, how="left")\<close>, with no \<^verbatim>\<open>validate\<close> argument, as in each
  of the notebook's three merges.  Every left row, in order, is paired with each right
  row of the same key, in the right frame's order, and is kept once with null fields
  when there is none; null keys match each other.  The fields taken from the right
  frame are its columns other than the key.  A label other than the key that both frames
  have gets the suffix \<open>_x\<close> on the left and \<open>_y\<close> on the right.
\<close>

definition merge_left :: "'a frame \<Rightarrow> 'a frame \<Rightarrow> string \<Rightarrow> py_error + 'a frame" where
  "merge_left left right on =
     (if on \<notin> set (columns left) \<or> on \<notin> set (columns right) then Inl (KeyError on)
      else
        let rcols = filter (\<lambda>c. c \<noteq> on) (columns right);
            lsuf = (\<lambda>c. if c \<noteq> on \<and> c \<in> set (columns right) then c @ ''_x'' else c);
            rsuf = (\<lambda>c. if c \<in> set (columns left) then c @ ''_y'' else c)
        in Inr \<lparr>columns = map lsuf (columns left) @ map rsuf rcols,
                rows = concat (map (\<lambda>l.
                   case filter (\<lambda>r. cell_of (columns right) r on = cell_of (columns left) l on)
                          (rows right) of
                     [] \<Rightarrow> [l @ replicate (length rcols) Null]
                   | ms \<Rightarrow> map (\<lambda>r. l @ map (cell_of (columns right) r) rcols) ms)
                 (rows left))\<rparr>)"

text \<open>\<^verbatim>\<open>series.ffill()\<close>: a null cell takes the last non-null value before it.\<close>

fun ffill_from :: "'a cell \<Rightarrow> 'a cell list \<Rightarrow> 'a cell list" where
  "ffill_from prev [] = []"
| "ffill_from prev (c # cs) =
     (if c = Null then prev # ffill_from prev cs else c # ffill_from c cs)"


text \<open>
  \<^verbatim>\<open>series.astype(int)\<close> raises on a null cell (pandas' IntCastingNaNError, a
  ValueError).  The cast of a value that is not an integer already (a float, a string
  of digits) is numpy's and is the parameter \<open>conv\<close>; where it gives nothing the cast
  raises ValueError.
\<close>

fun cast_int :: "('a cell \<Rightarrow> int option) \<Rightarrow> 'a cell \<Rightarrow> py_error + 'a cell" where
  "cast_int conv Null = Inl IntCastingNaNError"
| "cast_int conv (Num n) = Inr (Num n)"
| "cast_int conv c = (case conv c of None \<Rightarrow> Inl ValueError | Some n \<Rightarrow> Inr (Num n))"

fun astype_int :: "('a cell \<Rightarrow> int option) \<Rightarrow> 'a cell list \<Rightarrow> py_error + 'a cell list" where
  "astype_int conv [] = Inr []"
| "astype_int conv (c # cs) =
     (if Null \<in> set (c # cs) then Inl IntCastingNaNError
      else bind_err (cast_int conv c) (\<lambda>n. bind_err (astype_int conv cs) (\<lambda>ns. Inr (n # ns))))"



section \<open>MedSat data (Transform cells)\<close>

text \<open>
  \<^verbatim>\<open>
  assert (
      len(set(medsat_2019.columns) ^ set(medsat_2020.columns)) == 0
  ), "Columns do not match between Medsat Dataset Years"
  \<close>
  The frames are the two yearly frames as the loading cell leaves them, each with its
  \<open>year\<close> column added.
\<close>

definition sym_diff :: "'b set \<Rightarrow> 'b set \<Rightarrow> 'b set" where
  "sym_diff A B = (A - B) \<union> (B - A)"

definition assert_columns_match :: "'a frame \<Rightarrow> 'a frame \<Rightarrow> py_error + unit" where
  "assert_columns_match medsat_2019 medsat_2020 =
     (if card (sym_diff (set (columns medsat_2019)) (set (columns medsat_2020))) = 0
      then Inr ()
      else Inl (AssertionError ''Columns do not match between Medsat Dataset Years''))"

text \<open>
  \<^verbatim>\<open>
  medsat = (
      pd.concat([medsat_2019, medsat_2020], ignore_index=True)
      .rename(columns={"geography code": "LSOA21CD"})
      .merge(lsoa_to_region, on="LSOA21CD", how="left")
      .sort_values(by=["RGN22CD", "LSOA21CD", "year"], ignore_index=True)
      .assign(geometry=lambda df: df['geometry'].make_valid())
  )
  \<close>
  The model follows the statement up to the merge; the sort and the repair of the
  geometries that come after it are not modelled.
\<close>

definition medsat_merged :: "'a frame \<Rightarrow> 'a frame \<Rightarrow> 'a frame \<Rightarrow> py_error + 'a frame" where
  "medsat_merged medsat_2019 medsat_2020 lsoa_to_region =
     merge_left
       (rename_columns [(''geography code'', ''LSOA21CD'')] (pd_concat [medsat_2019, medsat_2020]))
       lsoa_to_region ''LSOA21CD''"

text \<open>The cells run in order, and a cell that raises stops the run.\<close>

definition medsat_transform :: "'a frame \<Rightarrow> 'a frame \<Rightarrow> 'a frame \<Rightarrow> py_error + 'a frame" where
  "medsat_transform medsat_2019 medsat_2020 lsoa_to_region =
     bind_err (assert_columns_match medsat_2019 medsat_2020)
       (\<lambda>_. medsat_merged medsat_2019 medsat_2020 lsoa_to_region)"

section \<open>MedSat variables (metadata cells)\<close>





text \<open>
  \<^verbatim>\<open>
  auxiliary = medsat_variables.parse("auxiliary").iloc[:, 1:]
  auxiliary.columns = [c.lower().replace(" ", "_") for c in auxiliary.columns]
  auxiliary["medsat_name"] = auxiliary["name"]
  auxiliary.loc[0] = {"name": "LSOA21CD", "meaning": "LSOA code", "medsat_name": "LSOA21CD"}
  new_fields = pd.DataFrame([
      {"name": "RGN22CD", "meaning": "Region code", "medsat_name": "RGN22CD"},
      {"name": "RGN22NM", "meaning": "Region name", "medsat_name": "RGN22NM"},
      {"name": "year", "meaning": "year of medsat data", "medsat_name": "year"}])
  auxiliary = pd.concat([auxiliary, new_fields], ignore_index=True)
  \<close>
\<close>

definition lsoa_record :: "(string \<times> 'a cell) list" where
  "lsoa_record =
     [(''name'', Str ''LSOA21CD''), (''meaning'', Str ''LSOA code''),
      (''medsat_name'', Str ''LSOA21CD'')]"

definition new_fields :: "'a frame" where
  "new_fields =
     \<lparr>columns = [''name'', ''meaning'', ''medsat_name''],
      rows = [[Str ''RGN22CD'', Str ''Region code'', Str ''RGN22CD''],
              [Str ''RGN22NM'', Str ''Region name'', Str ''RGN22NM''],
              [Str ''year'', Str ''year of medsat data'', Str ''year'']]\<rparr>"

definition auxiliary_parsed :: "'a frame \<Rightarrow> 'a frame" where
  "auxiliary_parsed sheet = relabel clean_sheet_column (iloc_cols 1 sheet)"

definition auxiliary_cell :: "'a frame \<Rightarrow> py_error + 'a frame" where
  "auxiliary_cell sheet =
     (let df = auxiliary_parsed sheet
      in bind_err (getitem df ''name'') (\<lambda>n.
         Inr (pd_concat [loc0_set lsoa_record (set_column ''medsat_name'' n df), new_fields])))"

text \<open>
  \<^verbatim>\<open>
  variables = [
      sociodemographic[["medsat_name", "type"]].assign(category="sociodemographic"),
      environmental[["medsat_name", "type"]].assign(category="environmental"),
      outcomes[["medsat_name", "type"]].assign(category="outcomes"),
      auxiliary[["medsat_name"]].assign(category="auxiliary"),
  ]
  variables = pd.concat(variables, ignore_index=True)
  \<close>
\<close>

definition variables_cell ::
  "'a frame \<Rightarrow> 'a frame \<Rightarrow> 'a frame \<Rightarrow> 'a frame \<Rightarrow> py_error + 'a frame" where
  "variables_cell sociodemographic environmental outcomes auxiliary =
     bind_err (select [''medsat_name'', ''type''] sociodemographic) (\<lambda>s.
     bind_err (select [''medsat_name'', ''type''] environmental) (\<lambda>e.
     bind_err (select [''medsat_name'', ''type''] outcomes) (\<lambda>ou.
     bind_err (select [''medsat_name''] auxiliary) (\<lambda>a.
     Inr (pd_concat
            [assign_const ''category'' (Str ''sociodemographic'') s,
             assign_const ''category'' (Str ''environmental'') e,
             assign_const ''category'' (Str ''outcomes'') ou,
             assign_const ''category'' (Str ''auxiliary'') a])))))"

text \<open>
  The catalogue from the auxiliary sheet as parsed and the three other frames as their
  cells leave them.
\<close>

definition medsat_catalogue ::
  "'a frame \<Rightarrow> 'a frame \<Rightarrow> 'a frame \<Rightarrow> 'a frame \<Rightarrow> py_error + 'a frame" where
  "medsat_catalogue sociodemographic environmental outcomes auxiliary_sheet =
     bind_err (auxiliary_cell auxiliary_sheet)
       (variables_cell sociodemographic environmental outcomes)"

text \<open>
  The gap check: \<^verbatim>\<open>set(medsat.columns) ^ set(variables["medsat_name"])\<close>.  A column
  label is a string, a name of the catalogue is a cell.
\<close>

definition gap_check :: "string list \<Rightarrow> 'a frame \<Rightarrow> py_error + 'a cell set" where
  "gap_check medsat_columns variables =
     bind_err (getitem variables ''medsat_name'')
       (\<lambda>names. Inr (sym_diff (Str ` set medsat_columns) (set names)))"

text \<open>
  The identifier columns of the merged data: the join key (the renamed geography code),
  the region code and name that the lookup adds, and the year that the loading cell
  adds.  The sort keys of the transform cell are among them.
\<close>

definition key_columns :: "string list" where
  "key_columns = [''LSOA21CD'', ''RGN22CD'', ''RGN22NM'', ''year'']"

section \<open>Fuzzy variable matcher\<close>

text \<open>
  Modelled from the spec: \<^verbatim>\<open>find_best_match\<close> is imported from \<^verbatim>\<open>utils\<close>, whose
  source is missing; the notebook only calls it
  (\<^verbatim>\<open>sociodemographic["name"].apply(find_best_match, args=(c_columns,))\<close>).
  The specification's \<open>match\<close> scores the declared name against every candidate with a
  similarity metric, takes the candidate of the highest score, the lexicographically
  least on a tie, which is flagged, and gives no match under the acceptance threshold.
  An override table from declared name to forced column takes precedence and is applied
  before the fuzzy pass, which is then not run.  The metric, the threshold and the
  table are parameters.
\<close>

datatype 's match_result = Unmatched | Forced string | Scored string 's bool

definition scoring_pass ::
  "(string \<times> string) list \<Rightarrow> (string \<Rightarrow> string \<Rightarrow> 's) \<Rightarrow> string \<Rightarrow> string list
     \<Rightarrow> (string \<times> 's) list" where
  "scoring_pass overrides similarity declared_name candidates =
     (case map_of overrides declared_name of
        Some forced \<Rightarrow> []
      | None \<Rightarrow> map (\<lambda>c. (c, similarity declared_name c)) candidates)"

definition better :: "string \<times> ('s::linorder) \<Rightarrow> string \<times> 's \<Rightarrow> bool" where
  "better y b = (snd b < snd y \<or> (snd y = snd b \<and> fst y < fst b))"

definition pick_best :: "(string \<times> ('s::linorder)) list \<Rightarrow> (string \<times> 's) option" where
  "pick_best scored =
     (case scored of
        [] \<Rightarrow> None
      | x # xs \<Rightarrow> Some (fold (\<lambda>y b. if better y b then y else b) xs x))"

definition match ::
  "(string \<times> string) list \<Rightarrow> (string \<Rightarrow> string \<Rightarrow> ('s::linorder)) \<Rightarrow> 's \<Rightarrow> string
     \<Rightarrow> string list \<Rightarrow> 's match_result" where
  "match overrides similarity threshold declared_name candidates =
     (case map_of overrides declared_name of
        Some forced \<Rightarrow> Forced forced
      | None \<Rightarrow>
          (let scored = scoring_pass overrides similarity declared_name candidates
           in case pick_best scored of
                None \<Rightarrow> Unmatched
              | Some (c, s) \<Rightarrow>
                  if s < threshold then Unmatched
                  else Scored c s (1 < length (filter (\<lambda>p. snd p = s) scored))))"

fun matched_name :: "'s match_result \<Rightarrow> string option" where
  "matched_name Unmatched = None"
| "matched_name (Forced c) = Some c"
| "matched_name (Scored c s tie) = Some c"

section \<open>Auxiliary definitions for the proofs\<close>

text \<open>What the rule of the metadata sheets does to one character.\<close>

definition sheet_char :: "char \<Rightarrow> char" where
  "sheet_char c = (if lower_char c = CHR '' '' then CHR ''_'' else lower_char c)"

section \<open>Properties of the chunked output\<close>

lemma slice_bound_nonneg: "slice_bound n (int m) = min m n"
  by (simp add: slice_bound_def)

lemma iloc_slice_nat: "iloc_slice (int a) (int b) xs = drop a (take b xs)"
  by (simp add: iloc_slice_def slice_bound_nonneg min_def)

lemma chunk_nat:
  "iloc_slice (int i * int k) ((int i + 1) * int k) xs = take k (drop (i * k) xs)"
proof -
  have "iloc_slice (int i * int k) ((int i + 1) * int k) xs
      = iloc_slice (int (i * k)) (int (i * k + k)) xs"
    by (simp add: algebra_simps)
  also have "\<dots> = drop (i * k) (take (i * k + k) xs)"
    by (rule iloc_slice_nat)
  also have "\<dots> = take k (drop (i * k) xs)"
    by (simp add: drop_take)
  finally show ?thesis .
qed

lemma concat_chunks:
  "concat (map (\<lambda>i. take k (drop (i * k) xs)) [0..<n]) = take (n * k) xs"
proof (induction n)
  case 0
  then show ?case by simp
next
  case (Suc n)
  have "concat (map (\<lambda>i. take k (drop (i * k) xs)) [0..<Suc n])
          = take (n * k) xs @ take k (drop (n * k) xs)"
    using Suc.IH by simp
  also have "\<dots> = take (n * k + k) xs"
    by (simp only: take_add)
  also have "n * k + k = Suc n * k"
    by simp
  finally show ?case .
qed

lemma n_chunks_pos: "0 < k \<Longrightarrow> n_chunks len (int k) = Inr (int (len div k + 1))"
  by (simp add: n_chunks_def zdiv_int)

lemma partition_rows_pos:
  assumes "0 < k"
  shows "partition_rows ss (int k) =
           Inr (map (\<lambda>i. (int i + 1, take k (drop (i * k) ss))) [0..<length ss div k + 1])"
  using assms
  by (simp add: partition_rows_def n_chunks_pos py_range_def o_def chunk_nat
           del: of_nat_add of_nat_Suc)

lemma chunk_numbers: "map (\<lambda>i. int i + 1) [0..<n] = map int [1..<n + 1]"
proof -
  have "map int [1..<n + 1] = map int (map Suc [0..<n])"
    by (simp add: map_Suc_upt del: upt_Suc)
  then show ?thesis by (simp add: o_def)
qed

lemma chunk_sizes:
  assumes "0 < k"
  shows "map (\<lambda>i. length (take k (drop (i * k) ss))) [0..<length ss div k + 1]
           = replicate (length ss div k) k @ [length ss mod k]"
proof -
  have full: "length (take k (drop (i * k) ss)) = k" if "i < length ss div k" for i
  proof -
    from that have "Suc i \<le> length ss div k" by simp
    then have "Suc i * k \<le> length ss div k * k" by (rule mult_le_mono1)
    also have "\<dots> \<le> length ss" by simp
    finally show ?thesis by simp
  qed
  have "length ss - length ss div k * k = length ss mod k"
    by (simp add: modulo_nat_def mult.commute)
  moreover have "length ss mod k < k"
    using assms by simp
  ultimately have last: "length (take k (drop (length ss div k * k) ss)) = length ss mod k"
    by simp
  have "map (\<lambda>i. length (take k (drop (i * k) ss))) [0..<length ss div k]
          = map (\<lambda>i. k) [0..<length ss div k]"
    by (rule map_cong) (use full in simp_all)
  then show ?thesis using last by (simp add: map_replicate_const)
qed

lemma partition_rows_sizes:
  assumes "0 < k"
  shows "\<exists>ps. partition_rows ss (int k) = Inr ps
           \<and> map (length \<circ> snd) ps = replicate (length ss div k) k @ [length ss mod k]"
  using chunk_sizes [OF assms, of ss] partition_rows_pos [OF assms, of ss]
  by (simp add: o_def del: upt_Suc)

text \<open>
  Claim C2.  For every row sequence and every positive chunk size, the loop returns, the
  chunks are numbered 1, 2, ... in the order written, and the chunks put one after the
  other in that order are the row sequence itself: no row is lost, repeated or moved.
\<close>

theorem partition_concat:
  assumes "0 < chunk_size"
  shows "\<exists>ps. partition_rows ss chunk_size = Inr ps
            \<and> map fst ps = map int [1..<length ps + 1]
            \<and> concat (map snd ps) = ss"
proof -
  obtain k where k: "chunk_size = int k" "0 < k"
    using assms by (metis pos_int_cases)
  let ?n = "length ss div k + 1"
  let ?ps = "map (\<lambda>i. (int i + 1, take k (drop (i * k) ss))) [0..<?n]"
  have 1: "partition_rows ss chunk_size = Inr ?ps"
    using k partition_rows_pos by blast
  have "length ss < ?n * k"
    using k(2) by (metis Suc_eq_plus1 dividend_less_div_times mult.commute mult_Suc)
  then have 2: "concat (map snd ?ps) = ss"
    by (simp add: o_def concat_chunks)
  have 3: "map fst ?ps = map int [1..<length ?ps + 1]"
    using chunk_numbers [of ?n] by (simp add: o_def del: upt_Suc)
  show ?thesis using 1 2 3 by blast
qed

text \<open>The theorem of C2 at five rows and chunks of two.\<close>

theorem partition_concat_witness:
  "(0::int) < 2 \<and> (\<exists>ps. partition_rows ''abcde'' 2 = Inr ps
            \<and> map fst ps = map int [1..<length ps + 1]
            \<and> concat (map snd ps) = ''abcde'')"
  using partition_concat [of 2 "''abcde''"] by simp

text \<open>
  Claim C1.  The specification asks for \<open>ceil(len(rows) / k)\<close> partitions.  The
  notebook computes \<^verbatim>\<open>len(ss) // chunk_size + 1\<close>, which is one more whenever the
  chunk size divides the number of rows: four rows in chunks of two are written as
  three files, the last one empty, where the ceiling is two; and 12000 rows with the
  notebook's chunk size of 6000 give three chunks where the ceiling is two.
\<close>

theorem partition_count_exact_multiple:
  "partition_rows ''abcd'' 2 = Inr [(1, ''ab''), (2, ''cd''), (3, [])]
   \<and> ceil_div 4 2 = 2
   \<and> n_chunks 12000 6000 = Inr 3
   \<and> ceil_div 12000 6000 = 2"
proof -
  have "partition_rows ''abcd'' 2 = Inr [(1, ''ab''), (2, ''cd''), (3, [])]"
    by code_simp
  moreover have "ceil_div 4 2 = 2" "ceil_div 12000 6000 = 2"
    by (simp_all add: ceil_div_def)
  moreover have "n_chunks 12000 6000 = Inr 3"
    by (simp add: n_chunks_def)
  ultimately show ?thesis by blast
qed

text \<open>
  The sizes of the chunks are \<open>k\<close>, ..., \<open>k\<close> and then the remainder, so no chunk
  has more than \<open>k\<close> rows and only the last can have fewer; 13000 rows in chunks of
  6000 have the sizes 6000, 6000 and 1000.
\<close>

lemma partition_13000:
  assumes "length ss = 13000"
  shows "\<exists>ps. partition_rows ss 6000 = Inr ps \<and> map (length \<circ> snd) ps = [6000, 6000, 1000]"
proof -
  have "replicate (13000 div 6000) (6000::nat) @ [13000 mod 6000] = [6000, 6000, 1000]"
    by (simp add: numeral_2_eq_2)
  then show ?thesis
    using partition_rows_sizes [of 6000 ss] assms by simp
qed

section \<open>Properties of the column-name rules\<close>

lemma str_replace_char: "str_replace [a] [b] s = map (\<lambda>c. if c = a then b else c) s"
  by (induction s) (simp_all add: str_replace.simps [of "[a]"])

lemma str_replace_del: "str_replace [a] [] s = filter (\<lambda>c. c \<noteq> a) s"
  by (induction s) (simp_all add: str_replace.simps [of "[a]"])

lemma lower_char_idem: "lower_char (lower_char c) = lower_char c"
  unfolding lower_char_def Let_def by auto


lemma sheet_char_idem: "sheet_char (sheet_char c) = sheet_char c"
  apply (simp add: sheet_char_def lower_char_idem)
  apply (simp add: lower_char_def)
  done





lemma sheet_char_comp:
  "map sheet_char x = map (\<lambda>c. if c = CHR '' '' then CHR ''_'' else c) (map lower_char x)"
  by (simp add: sheet_char_def)

lemma clean_env_column_filter:
  "clean_env_column x = filter (\<lambda>c. c \<noteq> CHR ''('' \<and> c \<noteq> CHR '')'') (map sheet_char x)"
  unfolding sheet_char_comp
  by (simp add: clean_env_column_def str_lower_def str_replace_char str_replace_del conj_commute)





text \<open>The normalizer as the specification words it.\<close>

lemma is_space_lower_char: "is_space (lower_char c) = is_space c"
  unfolding is_space_def lower_char_def Let_def by auto

lemma re_sub_ws_spaces: "c \<in> set (re_sub_ws s) \<Longrightarrow> is_space c \<Longrightarrow> c = CHR '' ''"
proof (induction s rule: re_sub_ws.induct)
  case 1
  then show ?case by simp
next
  case (2 d ds)
  then show ?case by (auto split: if_splits)
qed

lemma re_sub_ws_id: "\<forall>c\<in>set s. \<not> is_space c \<Longrightarrow> re_sub_ws s = s"
  by (induction s) simp_all

lemma str_strip_id: "\<forall>c\<in>set s. \<not> is_space c \<Longrightarrow> str_strip s = s"
proof -
  assume a: "\<forall>c\<in>set s. \<not> is_space c"
  have "dropWhile is_space t = t" if "\<forall>c\<in>set t. \<not> is_space c" for t
    using that by (cases t) simp_all
  from this [of s] this [of "rev s"] a show ?thesis
    by (simp add: str_strip_def)
qed

lemma sheet_char_not_space:
  assumes "is_space c \<longrightarrow> c = CHR '' ''"
  shows "\<not> is_space (sheet_char c)"
proof (cases "lower_char c = CHR '' ''")
  case True
  then show ?thesis by (simp add: sheet_char_def is_space_def)
next
  case False
  have "\<not> is_space c"
  proof
    assume "is_space c"
    with assms have "c = CHR '' ''" by simp
    then have "lower_char c = CHR '' ''" by (simp add: lower_char_def)
    with False show False by simp
  qed
  with False show ?thesis by (simp add: sheet_char_def is_space_lower_char)
qed

lemma normalize_spec_filter:
  "normalize_spec x
     = filter (\<lambda>c. c \<noteq> CHR ''('' \<and> c \<noteq> CHR '')'') (map sheet_char (str_strip (re_sub_ws x)))"
  by (simp add: normalize_spec_def clean_env_column_filter [unfolded clean_env_column_def])

lemma set_str_strip: "set (str_strip s) \<subseteq> set s"
proof -
  have "set (dropWhile is_space (rev (dropWhile is_space s))) \<subseteq> set (rev (dropWhile is_space s))"
    by (rule set_dropWhileD [THEN subsetI])
  also have "\<dots> \<subseteq> set s"
    by (auto dest: set_dropWhileD)
  finally show ?thesis by (simp add: str_strip_def)
qed

text \<open>
  The five-step normalizer of the specification is idempotent itself: its result has no
  white space, no capital and no parenthesis left.
\<close>

lemma normalize_spec_idem: "normalize_spec (normalize_spec x) = normalize_spec x"
proof -
  let ?P = "\<lambda>c. c \<noteq> CHR ''('' \<and> c \<noteq> CHR '')''"
  let ?t = "str_strip (re_sub_ws x)"
  let ?y = "filter ?P (map sheet_char ?t)"
  have sp: "\<forall>c\<in>set ?t. is_space c \<longrightarrow> c = CHR '' ''"
    using set_str_strip [of "re_sub_ws x"] re_sub_ws_spaces [of _ x] by blast
  have ns: "\<forall>c\<in>set ?y. \<not> is_space c"
  proof (intro ballI)
    fix c
    assume "c \<in> set ?y"
    then obtain d where d: "d \<in> set ?t" "c = sheet_char d"
      by auto
    from sp d(1) have "is_space d \<longrightarrow> d = CHR '' ''"
      by (rule bspec)
    then show "\<not> is_space c"
      unfolding d(2) by (rule sheet_char_not_space)
  qed
  have "map sheet_char ?y = ?y"
    by (rule map_idI) (auto simp: sheet_char_idem)
  moreover have "filter ?P ?y = ?y"
    by (rule filter_True) simp
  ultimately have "filter ?P (map sheet_char ?y) = ?y"
    by (simp only:)
  moreover have "re_sub_ws ?y = ?y"
    using ns by (rule re_sub_ws_id)
  moreover have "str_strip ?y = ?y"
    using ns by (rule str_strip_id)
  ultimately have "filter ?P (map sheet_char (str_strip (re_sub_ws ?y))) = ?y"
    by (simp only:)
  then show ?thesis
    by (simp only: normalize_spec_filter)
qed

section \<open>Properties of the merge\<close>









section \<open>Properties of the transform cells\<close>

lemma sym_diff_empty: "sym_diff A B = {} \<longleftrightarrow> A = B"
  by (auto simp: sym_diff_def)

lemma assert_columns_match_iff:
  "assert_columns_match a b =
     (if set (columns a) = set (columns b) then Inr ()
      else Inl (AssertionError ''Columns do not match between Medsat Dataset Years''))"
proof -
  have "finite (sym_diff (set (columns a)) (set (columns b)))"
    by (simp add: sym_diff_def)
  then have "card (sym_diff (set (columns a)) (set (columns b))) = 0
               \<longleftrightarrow> set (columns a) = set (columns b)"
    by (simp add: sym_diff_empty)
  then show ?thesis
    by (simp add: assert_columns_match_def)
qed

text \<open>
  Claim C6.  When the column sets of the two yearly frames differ, the run of the
  transform cells fails with the assertion error "Columns do not match between Medsat
  Dataset Years" (the schema mismatch of the specification), whatever the lookup table
  is: the merge, which could raise on the lookup table, is not reached.
\<close>

theorem schema_mismatch_aborts:
  assumes "set (columns medsat_2019) \<noteq> set (columns medsat_2020)"
  shows "medsat_transform medsat_2019 medsat_2020 lsoa_to_region
           = Inl (AssertionError ''Columns do not match between Medsat Dataset Years'')"
  using assms by (simp add: medsat_transform_def assert_columns_match_iff bind_err_def)

text \<open>
  With equal column sets the assertion passes and the run is the merge.
\<close>

lemma schema_match_merges:
  assumes "set (columns medsat_2019) = set (columns medsat_2020)"
  shows "medsat_transform medsat_2019 medsat_2020 lsoa_to_region
           = medsat_merged medsat_2019 medsat_2020 lsoa_to_region"
  using assms by (simp add: medsat_transform_def assert_columns_match_iff bind_err_def)

text \<open>
  The theorem of C6 on a frame of 2020 with a column that the frame of 2019 lacks.
\<close>

theorem schema_mismatch_aborts_witness:
  "set (columns \<lparr>columns = [''geography code'', ''year''],
                 rows = [[Str ''E01'', Num 2019 :: unit cell]]\<rparr>)
     \<noteq> set (columns \<lparr>columns = [''geography code'', ''c_total'', ''year''],
                     rows = [[Str ''E01'', Num 7, Num 2020 :: unit cell]]\<rparr>)
   \<and> medsat_transform
         \<lparr>columns = [''geography code'', ''year''], rows = [[Str ''E01'', Num 2019 :: unit cell]]\<rparr>
         \<lparr>columns = [''geography code'', ''c_total'', ''year''],
          rows = [[Str ''E01'', Num 7, Num 2020]]\<rparr>
         \<lparr>columns = [''LSOA21CD'', ''RGN22CD'', ''RGN22NM''],
          rows = [[Str ''E01'', Str ''E12'', Str ''North'']]\<rparr>
       = Inl (AssertionError ''Columns do not match between Medsat Dataset Years'')"
proof -
  have "''c_total'' \<notin> set [''geography code'', ''year'']"
    and "''c_total'' \<in> set [''geography code'', ''c_total'', ''year'']"
    by simp_all
  then have h: "set (columns \<lparr>columns = [''geography code'', ''year''],
                 rows = [[Str ''E01'', Num 2019 :: unit cell]]\<rparr>)
     \<noteq> set (columns \<lparr>columns = [''geography code'', ''c_total'', ''year''],
                     rows = [[Str ''E01'', Num 7, Num 2020 :: unit cell]]\<rparr>)"
    unfolding frame.simps by metis
  show ?thesis
    using h schema_mismatch_aborts [OF h] by blast
qed

section \<open>Properties of the frame operations\<close>

lemma cell_of_absent: "c \<notin> set cols \<Longrightarrow> cell_of cols r c = Null"
proof -
  assume "c \<notin> set cols"
  then have "c \<notin> fst ` set (zip cols r)"
    by (auto dest: set_zip_leftD)
  then have "map_of (zip cols r) c = None"
    by (simp add: map_of_eq_None_iff)
  then show ?thesis by (simp add: cell_of_def)
qed

lemma cell_of_map: "cell_of cols (map F cols) c = (if c \<in> set cols then F c else Null)"
  by (simp add: cell_of_def map_of_zip_map)

lemma set_ordered_union: "set (ordered_union cs) = set cs"
  by (simp add: ordered_union_def)

lemma length_column: "length (column df c) = length (rows df)"
  by (simp add: column_def)

lemma column_absent: "c \<notin> set (columns df) \<Longrightarrow> column df c = replicate (length (rows df)) Null"
  by (simp add: column_def cell_of_absent map_replicate_const)

lemma column_reindexed:
  "map (\<lambda>r. cell_of cols r c) (map (\<lambda>r. map (cell_of old r) cols) rs)
     = (if c \<in> set cols then map (\<lambda>r. cell_of old r c) rs else replicate (length rs) Null)"
  by (simp add: o_def cell_of_map map_replicate_const)

lemma column_pd_concat: "column (pd_concat dfs) c = concat (map (\<lambda>df. column df c) dfs)"
proof (cases "c \<in> set (concat (map columns dfs))")
  case True
  then show ?thesis
    by (simp add: pd_concat_def column_def Let_def map_concat o_def cell_of_map
          set_ordered_union)
next
  case False
  then have "\<And>df. df \<in> set dfs \<Longrightarrow> c \<notin> set (columns df)" by auto
  then have eq: "map (\<lambda>df. column df c) dfs = map (\<lambda>df. map (\<lambda>r. Null) (rows df)) dfs"
    by (intro map_cong refl) (simp add: column_absent map_replicate_const)
  from False have "column (pd_concat dfs) c = concat (map (\<lambda>df. map (\<lambda>r. Null) (rows df)) dfs)"
    by (simp add: pd_concat_def column_def Let_def map_concat o_def cell_of_map
          set_ordered_union)
  with eq show ?thesis by (simp only:)
qed

lemma columns_pd_concat: "set (columns (pd_concat dfs)) = (\<Union>df\<in>set dfs. set (columns df))"
  by (simp add: pd_concat_def Let_def set_ordered_union)

lemma select_ok:
  "set cs \<subseteq> set (columns df) \<Longrightarrow>
     select cs df = Inr \<lparr>columns = cs, rows = map (\<lambda>r. map (cell_of (columns df) r) cs) (rows df)\<rparr>"
proof -
  assume "set cs \<subseteq> set (columns df)"
  then have "filter (\<lambda>c. c \<notin> set (columns df)) cs = []"
    by (auto simp: filter_empty_conv)
  then show ?thesis by (simp add: select_def)
qed

lemma select_Inr:
  "select cs df = Inr s \<Longrightarrow>
     s = \<lparr>columns = cs, rows = map (\<lambda>r. map (cell_of (columns df) r) cs) (rows df)\<rparr>"
  by (auto simp: select_def split: list.splits)

lemma column_selected:
  "c \<in> set cs \<Longrightarrow>
     column \<lparr>columns = cs, rows = map (\<lambda>r. map (cell_of (columns df) r) cs) (rows df)\<rparr> c
       = column df c"
  by (simp add: column_def o_def cell_of_map)

lemma columns_set_column:
  "columns (set_column c vals df) = (if c \<in> set (columns df) then columns df else columns df @ [c])"
  by (simp add: set_column_def Let_def)

lemma map_fst_zip_fun: "length ys = length xs \<Longrightarrow> map (\<lambda>p. f (fst p)) (zip xs ys) = map f xs"
  by (induction xs ys rule: list_induct2') simp_all

lemma map_snd_zip_id: "length ys = length xs \<Longrightarrow> map (\<lambda>p. snd p) (zip xs ys) = ys"
  by (induction xs ys rule: list_induct2') simp_all

lemma column_set_column:
  assumes "length vals = length (rows df)"
  shows "column (set_column c vals df) c' = (if c' = c then vals else column df c')"
proof -
  let ?cols = "if c \<in> set (columns df) then columns df else columns df @ [c]"
  have rows: "rows (set_column c vals df)
      = map (\<lambda>(r, v). map (\<lambda>k. if k = c then v else cell_of (columns df) r k) ?cols)
          (zip (rows df) vals)"
    by (simp add: set_column_def Let_def)
  have cell: "cell_of ?cols (map (\<lambda>k. if k = c then v else cell_of (columns df) r k) ?cols) c'
               = (if c' = c then v else cell_of (columns df) r c')" for r v
    by (simp add: cell_of_map cell_of_absent)
  have "column (set_column c vals df) c'
          = map (\<lambda>p. if c' = c then snd p else cell_of (columns df) (fst p) c') (zip (rows df) vals)"
    unfolding column_def rows columns_set_column
    by (simp add: o_def case_prod_unfold cell)
  also have "\<dots> = (if c' = c then vals else column df c')"
    using assms map_fst_zip_fun [of vals "rows df" "\<lambda>r. cell_of (columns df) r c'"]
    by (simp add: column_def map_snd_zip_id)
  finally show ?thesis .
qed

lemma length_rows_set_column:
  "length vals = length (rows df) \<Longrightarrow> length (rows (set_column c vals df)) = length (rows df)"
  by (simp add: set_column_def Let_def)

lemma column_assign_const:
  "column (assign_const c v df) c' = (if c' = c then replicate (length (rows df)) v else column df c')"
  by (simp add: assign_const_def column_set_column)

lemma columns_assign_const:
  "columns (assign_const c v df) = (if c \<in> set (columns df) then columns df else columns df @ [c])"
  by (simp add: assign_const_def columns_set_column)


section \<open>Properties of the variable catalogue\<close>

text \<open>
  The cells of the metadata: when they return, and what their columns hold.
\<close>

lemma bind_err_Inr: "bind_err r f = Inr y \<longleftrightarrow> (\<exists>x. r = Inr x \<and> f x = Inr y)"
  by (cases r) (simp_all add: bind_err_def)

lemma getitem_Inr: "getitem df c = Inr vs \<longleftrightarrow> c \<in> set (columns df) \<and> vs = column df c"
  by (auto simp: getitem_def)

lemma column_loc0_set:
  "c \<in> set (columns df) \<Longrightarrow>
     column (loc0_set d df) c = (case map_of d c of Some v \<Rightarrow> v | None \<Rightarrow> Null) # tl (column df c)"
  by (cases "rows df") (simp_all add: loc0_set_def column_def Let_def cell_of_map)

lemma column_new_fields:
  "column new_fields ''medsat_name'' = [Str ''RGN22CD'', Str ''RGN22NM'', Str ''year'']"
  "column new_fields ''name'' = [Str ''RGN22CD'', Str ''RGN22NM'', Str ''year'']"
  "column new_fields ''meaning''
     = [Str ''Region code'', Str ''Region name'', Str ''year of medsat data'']"
  by (simp_all add: new_fields_def column_def cell_of_def)

lemma auxiliary_cell_Inr:
  "auxiliary_cell sheet = Inr aux \<longleftrightarrow>
     ''name'' \<in> set (columns (auxiliary_parsed sheet))
     \<and> aux = pd_concat
              [loc0_set lsoa_record
                 (set_column ''medsat_name''
                    (column (auxiliary_parsed sheet) ''name'')
                    (auxiliary_parsed sheet)),
               new_fields]"
  by (auto simp: auxiliary_cell_def Let_def bind_err_Inr getitem_Inr)

lemma auxiliary_columns:
  assumes "auxiliary_cell sheet = Inr aux"
  shows "column aux ''medsat_name''
           = Str ''LSOA21CD''
               # tl (column (auxiliary_parsed sheet) ''name'')
               @ [Str ''RGN22CD'', Str ''RGN22NM'', Str ''year'']"
    and "column aux ''name'' = column aux ''medsat_name''"
    and "''medsat_name'' \<in> set (columns aux)"
proof -
  define df where "df = auxiliary_parsed sheet"
  define a2 where "a2 = set_column ''medsat_name'' (column df ''name'') df"
  from assms have name: "''name'' \<in> set (columns df)"
    and aux: "aux = pd_concat [loc0_set lsoa_record a2, new_fields]"
    by (simp_all add: auxiliary_cell_Inr df_def a2_def)
  have cols: "''medsat_name'' \<in> set (columns a2)" "''name'' \<in> set (columns a2)"
    using name by (simp_all add: a2_def columns_set_column)
  have c2: "column a2 ''medsat_name'' = column df ''name''"
    "column a2 ''name'' = column df ''name''"
    by (simp_all add: a2_def column_set_column length_column)
  have l: "column (loc0_set lsoa_record a2) ''medsat_name'' = Str ''LSOA21CD'' # tl (column df ''name'')"
    "column (loc0_set lsoa_record a2) ''name'' = Str ''LSOA21CD'' # tl (column df ''name'')"
    by (simp_all add: column_loc0_set [OF cols(1)] column_loc0_set [OF cols(2)] c2 lsoa_record_def)
  have "column aux ''medsat_name''
           = Str ''LSOA21CD'' # tl (column df ''name'') @ [Str ''RGN22CD'', Str ''RGN22NM'', Str ''year'']"
    by (simp add: aux column_pd_concat l column_new_fields)
  moreover have "column aux ''name''
           = Str ''LSOA21CD'' # tl (column df ''name'') @ [Str ''RGN22CD'', Str ''RGN22NM'', Str ''year'']"
    by (simp add: aux column_pd_concat l column_new_fields)
  ultimately show "column aux ''medsat_name''
           = Str ''LSOA21CD''
               # tl (column (auxiliary_parsed sheet) ''name'')
               @ [Str ''RGN22CD'', Str ''RGN22NM'', Str ''year'']"
    and "column aux ''name'' = column aux ''medsat_name''"
    by (simp_all only: df_def)
  show "''medsat_name'' \<in> set (columns aux)"
    by (simp add: aux columns_pd_concat new_fields_def)
qed

lemma select_Inr_iff:
  "select cs df = Inr s \<longleftrightarrow>
     set cs \<subseteq> set (columns df)
     \<and> s = \<lparr>columns = cs, rows = map (\<lambda>r. map (cell_of (columns df) r) cs) (rows df)\<rparr>"
proof
  assume a: "select cs df = Inr s"
  then have "filter (\<lambda>c. c \<notin> set (columns df)) cs = []"
    by (auto simp: select_def split: list.splits)
  then have "set cs \<subseteq> set (columns df)"
    by (auto simp: filter_empty_conv)
  with a show "set cs \<subseteq> set (columns df)
     \<and> s = \<lparr>columns = cs, rows = map (\<lambda>r. map (cell_of (columns df) r) cs) (rows df)\<rparr>"
    by (simp add: select_ok)
next
  assume "set cs \<subseteq> set (columns df)
     \<and> s = \<lparr>columns = cs, rows = map (\<lambda>r. map (cell_of (columns df) r) cs) (rows df)\<rparr>"
  then show "select cs df = Inr s" by (simp add: select_ok)
qed

lemma select_column:
  "select cs df = Inr s \<Longrightarrow> c \<in> set cs \<Longrightarrow> column s c = column df c"
  by (simp add: select_Inr_iff column_selected)

lemma select_length:
  "select cs df = Inr s \<Longrightarrow> length (rows s) = length (rows df)"
  by (simp add: select_Inr_iff)

lemma select_columns:
  "select cs df = Inr s \<Longrightarrow> columns s = cs"
  by (simp add: select_Inr_iff)

lemma variables_cell_columns:
  assumes "variables_cell soc env out aux = Inr v"
  shows "column v ''medsat_name''
           = column soc ''medsat_name'' @ column env ''medsat_name''
               @ column out ''medsat_name'' @ column aux ''medsat_name''"
    and "column v ''category''
           = replicate (length (rows soc)) (Str ''sociodemographic'')
               @ replicate (length (rows env)) (Str ''environmental'')
               @ replicate (length (rows out)) (Str ''outcomes'')
               @ replicate (length (rows aux)) (Str ''auxiliary'')"
    and "''medsat_name'' \<in> set (columns v)"
proof -
  from assms obtain s e ou a where
    s: "select [''medsat_name'', ''type''] soc = Inr s" and
    e: "select [''medsat_name'', ''type''] env = Inr e" and
    ou: "select [''medsat_name'', ''type''] out = Inr ou" and
    a: "select [''medsat_name''] aux = Inr a" and
    v: "v = pd_concat
            [assign_const ''category'' (Str ''sociodemographic'') s,
             assign_const ''category'' (Str ''environmental'') e,
             assign_const ''category'' (Str ''outcomes'') ou,
             assign_const ''category'' (Str ''auxiliary'') a]"
    by (auto simp: variables_cell_def bind_err_Inr)
  show "column v ''medsat_name''
           = column soc ''medsat_name'' @ column env ''medsat_name''
               @ column out ''medsat_name'' @ column aux ''medsat_name''"
    by (simp add: v column_pd_concat column_assign_const
          select_column [OF s] select_column [OF e] select_column [OF ou] select_column [OF a])
  show "column v ''category''
           = replicate (length (rows soc)) (Str ''sociodemographic'')
               @ replicate (length (rows env)) (Str ''environmental'')
               @ replicate (length (rows out)) (Str ''outcomes'')
               @ replicate (length (rows aux)) (Str ''auxiliary'')"
    by (simp add: v column_pd_concat column_assign_const
          select_length [OF s] select_length [OF e] select_length [OF ou] select_length [OF a])
  show "''medsat_name'' \<in> set (columns v)"
    by (simp add: v columns_pd_concat columns_assign_const select_columns [OF s])
qed





lemma catalogue_keys:
  assumes "medsat_catalogue soc env out sheet = Inr v"
  shows "Str ` set key_columns \<subseteq> set (column v ''medsat_name'')"
    and "''medsat_name'' \<in> set (columns v)"
proof -
  from assms obtain aux where aux: "auxiliary_cell sheet = Inr aux"
    and v: "variables_cell soc env out aux = Inr v"
    by (auto simp: medsat_catalogue_def bind_err_Inr)
  show "Str ` set key_columns \<subseteq> set (column v ''medsat_name'')"
    by (auto simp: variables_cell_columns(1) [OF v] auxiliary_columns(1) [OF aux]
          key_columns_def)
  show "''medsat_name'' \<in> set (columns v)"
    by (rule variables_cell_columns(3) [OF v])
qed


text \<open>
  Claim C7.  For the columns of the merged data and a catalogue that the assembly has
  returned: when every column other than the key columns has its name in the catalogue
  and every name of the catalogue is a column, the gap check returns the empty set.  The
  check itself does not exempt the key columns; they are in every assembled catalogue.
\<close>

theorem gap_check_empty:
  assumes "medsat_catalogue soc env out auxiliary_sheet = Inr variables"
    and "\<forall>c\<in>set medsat_columns. c \<notin> set key_columns
            \<longrightarrow> Str c \<in> set (column variables ''medsat_name'')"
    and "\<forall>n\<in>set (column variables ''medsat_name''). \<exists>c\<in>set medsat_columns. n = Str c"
  shows "gap_check medsat_columns variables = Inr {}"
proof -
  have keys: "Str ` set key_columns \<subseteq> set (column variables ''medsat_name'')"
    and mn: "''medsat_name'' \<in> set (columns variables)"
    by (rule catalogue_keys [OF assms(1)])+
  have "Str ` set medsat_columns \<subseteq> set (column variables ''medsat_name'')"
    using keys assms(2) by blast
  moreover have "set (column variables ''medsat_name'') \<subseteq> Str ` set medsat_columns"
    using assms(3) by blast
  ultimately have "sym_diff (Str ` set medsat_columns) (set (column variables ''medsat_name'')) = {}"
    by (simp add: sym_diff_def)
  then show ?thesis
    using mn by (simp add: gap_check_def getitem_def bind_err_def)
qed


text \<open>
  The theorem of C7 on the catalogue of a small workbook and the eight columns it names.
\<close>

theorem gap_check_empty_witness:
  "medsat_catalogue
         \<lparr>columns = [''name'', ''type'', ''medsat_name''],
          rows = [[Str ''total'', Str ''count'', Str ''c_total'' :: unit cell]]\<rparr>
         \<lparr>columns = [''name'', ''type'', ''medsat_name''],
          rows = [[Str ''ndvi'', Str ''index'', Str ''e_ndvi'' :: unit cell]]\<rparr>
         \<lparr>columns = [''name'', ''type'', ''medsat_name''],
          rows = [[Str ''asthma'', Str ''rate'', Str ''o_asthma'' :: unit cell]]\<rparr>
         \<lparr>columns = [''Unnamed: 0'', ''Name'', ''Meaning''],
          rows = [[Num 0, Str ''geography code'', Str ''LSOA code'' :: unit cell],
                  [Num 1, Str ''geometry'', Str ''LSOA polygon'']]\<rparr>
       = Inr \<lparr>columns = [''medsat_name'', ''type'', ''category''],
          rows = [[Str ''c_total'', Str ''count'', Str ''sociodemographic'' :: unit cell],
                  [Str ''e_ndvi'', Str ''index'', Str ''environmental''],
                  [Str ''o_asthma'', Str ''rate'', Str ''outcomes''],
                  [Str ''LSOA21CD'', Null, Str ''auxiliary''],
                  [Str ''geometry'', Null, Str ''auxiliary''],
                  [Str ''RGN22CD'', Null, Str ''auxiliary''],
                  [Str ''RGN22NM'', Null, Str ''auxiliary''],
                  [Str ''year'', Null, Str ''auxiliary'']]\<rparr>
   \<and> list_all (\<lambda>c. c \<in> set key_columns \<or> Str c \<in> set (column
         \<lparr>columns = [''medsat_name'', ''type'', ''category''],
          rows = [[Str ''c_total'', Str ''count'', Str ''sociodemographic'' :: unit cell],
                  [Str ''e_ndvi'', Str ''index'', Str ''environmental''],
                  [Str ''o_asthma'', Str ''rate'', Str ''outcomes''],
                  [Str ''LSOA21CD'', Null, Str ''auxiliary''],
                  [Str ''geometry'', Null, Str ''auxiliary''],
                  [Str ''RGN22CD'', Null, Str ''auxiliary''],
                  [Str ''RGN22NM'', Null, Str ''auxiliary''],
                  [Str ''year'', Null, Str ''auxiliary'']]\<rparr> ''medsat_name''))
         [''LSOA21CD'', ''c_total'', ''e_ndvi'', ''o_asthma'', ''geometry'', ''RGN22CD'', ''RGN22NM'',
          ''year'']
   \<and> list_all (\<lambda>n. n \<in> Str ` set [''LSOA21CD'', ''c_total'', ''e_ndvi'', ''o_asthma'', ''geometry'', ''RGN22CD'', ''RGN22NM'',
          ''year''])
         (column
         \<lparr>columns = [''medsat_name'', ''type'', ''category''],
          rows = [[Str ''c_total'', Str ''count'', Str ''sociodemographic'' :: unit cell],
                  [Str ''e_ndvi'', Str ''index'', Str ''environmental''],
                  [Str ''o_asthma'', Str ''rate'', Str ''outcomes''],
                  [Str ''LSOA21CD'', Null, Str ''auxiliary''],
                  [Str ''geometry'', Null, Str ''auxiliary''],
                  [Str ''RGN22CD'', Null, Str ''auxiliary''],
                  [Str ''RGN22NM'', Null, Str ''auxiliary''],
                  [Str ''year'', Null, Str ''auxiliary'']]\<rparr> ''medsat_name'')
   \<and> gap_check [''LSOA21CD'', ''c_total'', ''e_ndvi'', ''o_asthma'', ''geometry'', ''RGN22CD'', ''RGN22NM'',
          ''year'']
         \<lparr>columns = [''medsat_name'', ''type'', ''category''],
          rows = [[Str ''c_total'', Str ''count'', Str ''sociodemographic'' :: unit cell],
                  [Str ''e_ndvi'', Str ''index'', Str ''environmental''],
                  [Str ''o_asthma'', Str ''rate'', Str ''outcomes''],
                  [Str ''LSOA21CD'', Null, Str ''auxiliary''],
                  [Str ''geometry'', Null, Str ''auxiliary''],
                  [Str ''RGN22CD'', Null, Str ''auxiliary''],
                  [Str ''RGN22NM'', Null, Str ''auxiliary''],
                  [Str ''year'', Null, Str ''auxiliary'']]\<rparr> = Inr {}"
proof -
  have h1: "medsat_catalogue
         \<lparr>columns = [''name'', ''type'', ''medsat_name''],
          rows = [[Str ''total'', Str ''count'', Str ''c_total'' :: unit cell]]\<rparr>
         \<lparr>columns = [''name'', ''type'', ''medsat_name''],
          rows = [[Str ''ndvi'', Str ''index'', Str ''e_ndvi'' :: unit cell]]\<rparr>
         \<lparr>columns = [''name'', ''type'', ''medsat_name''],
          rows = [[Str ''asthma'', Str ''rate'', Str ''o_asthma'' :: unit cell]]\<rparr>
         \<lparr>columns = [''Unnamed: 0'', ''Name'', ''Meaning''],
          rows = [[Num 0, Str ''geography code'', Str ''LSOA code'' :: unit cell],
                  [Num 1, Str ''geometry'', Str ''LSOA polygon'']]\<rparr>
       = Inr \<lparr>columns = [''medsat_name'', ''type'', ''category''],
          rows = [[Str ''c_total'', Str ''count'', Str ''sociodemographic'' :: unit cell],
                  [Str ''e_ndvi'', Str ''index'', Str ''environmental''],
                  [Str ''o_asthma'', Str ''rate'', Str ''outcomes''],
                  [Str ''LSOA21CD'', Null, Str ''auxiliary''],
                  [Str ''geometry'', Null, Str ''auxiliary''],
                  [Str ''RGN22CD'', Null, Str ''auxiliary''],
                  [Str ''RGN22NM'', Null, Str ''auxiliary''],
                  [Str ''year'', Null, Str ''auxiliary'']]\<rparr>"
    by code_simp
  have h2: "(\<forall>c\<in>set [''LSOA21CD'', ''c_total'', ''e_ndvi'', ''o_asthma'', ''geometry'', ''RGN22CD'', ''RGN22NM'',
          ''year''].
         c \<notin> set key_columns \<longrightarrow> Str c \<in> set (column
         \<lparr>columns = [''medsat_name'', ''type'', ''category''],
          rows = [[Str ''c_total'', Str ''count'', Str ''sociodemographic'' :: unit cell],
                  [Str ''e_ndvi'', Str ''index'', Str ''environmental''],
                  [Str ''o_asthma'', Str ''rate'', Str ''outcomes''],
                  [Str ''LSOA21CD'', Null, Str ''auxiliary''],
                  [Str ''geometry'', Null, Str ''auxiliary''],
                  [Str ''RGN22CD'', Null, Str ''auxiliary''],
                  [Str ''RGN22NM'', Null, Str ''auxiliary''],
                  [Str ''year'', Null, Str ''auxiliary'']]\<rparr> ''medsat_name''))"
    by (simp add: column_def cell_of_def key_columns_def)
  have h3: "(\<forall>n\<in>set (column
         \<lparr>columns = [''medsat_name'', ''type'', ''category''],
          rows = [[Str ''c_total'', Str ''count'', Str ''sociodemographic'' :: unit cell],
                  [Str ''e_ndvi'', Str ''index'', Str ''environmental''],
                  [Str ''o_asthma'', Str ''rate'', Str ''outcomes''],
                  [Str ''LSOA21CD'', Null, Str ''auxiliary''],
                  [Str ''geometry'', Null, Str ''auxiliary''],
                  [Str ''RGN22CD'', Null, Str ''auxiliary''],
                  [Str ''RGN22NM'', Null, Str ''auxiliary''],
                  [Str ''year'', Null, Str ''auxiliary'']]\<rparr> ''medsat_name'').
         \<exists>c\<in>set [''LSOA21CD'', ''c_total'', ''e_ndvi'', ''o_asthma'', ''geometry'', ''RGN22CD'', ''RGN22NM'',
          ''year'']. n = Str c)"
    by (simp add: column_def cell_of_def)
  have l2: "list_all (\<lambda>c. c \<in> set key_columns \<or> Str c \<in> set (column
         \<lparr>columns = [''medsat_name'', ''type'', ''category''],
          rows = [[Str ''c_total'', Str ''count'', Str ''sociodemographic'' :: unit cell],
                  [Str ''e_ndvi'', Str ''index'', Str ''environmental''],
                  [Str ''o_asthma'', Str ''rate'', Str ''outcomes''],
                  [Str ''LSOA21CD'', Null, Str ''auxiliary''],
                  [Str ''geometry'', Null, Str ''auxiliary''],
                  [Str ''RGN22CD'', Null, Str ''auxiliary''],
                  [Str ''RGN22NM'', Null, Str ''auxiliary''],
                  [Str ''year'', Null, Str ''auxiliary'']]\<rparr> ''medsat_name''))
         [''LSOA21CD'', ''c_total'', ''e_ndvi'', ''o_asthma'', ''geometry'', ''RGN22CD'', ''RGN22NM'',
          ''year'']"
    by (simp add: column_def cell_of_def key_columns_def)
  have l3: "list_all (\<lambda>n. n \<in> Str ` set [''LSOA21CD'', ''c_total'', ''e_ndvi'', ''o_asthma'', ''geometry'', ''RGN22CD'', ''RGN22NM'',
          ''year''])
         (column
         \<lparr>columns = [''medsat_name'', ''type'', ''category''],
          rows = [[Str ''c_total'', Str ''count'', Str ''sociodemographic'' :: unit cell],
                  [Str ''e_ndvi'', Str ''index'', Str ''environmental''],
                  [Str ''o_asthma'', Str ''rate'', Str ''outcomes''],
                  [Str ''LSOA21CD'', Null, Str ''auxiliary''],
                  [Str ''geometry'', Null, Str ''auxiliary''],
                  [Str ''RGN22CD'', Null, Str ''auxiliary''],
                  [Str ''RGN22NM'', Null, Str ''auxiliary''],
                  [Str ''year'', Null, Str ''auxiliary'']]\<rparr> ''medsat_name'')"
    by (simp add: column_def cell_of_def)
  show ?thesis
    using gap_check_empty [OF h1 h2 h3] h1 l2 l3 by blast
qed

section \<open>Properties of the forward fill\<close>





lemma ffill_from_no_null: "p \<noteq> Null \<Longrightarrow> Null \<notin> set (ffill_from p cs)"
  by (induction cs arbitrary: p) auto


lemma astype_int_null: "Null \<in> set cs \<Longrightarrow> astype_int conv cs = Inl IntCastingNaNError"
  by (cases cs) auto










section \<open>Properties of the matcher\<close>

text \<open>
  Claim C9.  For a declared name with an entry in the override table, \<open>match\<close> returns
  the forced column as it is, whatever the similarity metric, the threshold and the
  candidates are, and the scoring pass scores no candidate.
\<close>

theorem match_override:
  assumes "map_of overrides declared_name = Some forced"
  shows "match overrides similarity threshold declared_name candidates = Forced forced
         \<and> matched_name (match overrides similarity threshold declared_name candidates)
             = Some forced
         \<and> scoring_pass overrides similarity declared_name candidates = []"
  using assms by (simp add: match_def scoring_pass_def)

text \<open>
  The theorem of C9 on a name whose override is none of the candidates, one of which
  scores highest.
\<close>

theorem match_override_witness:
  "map_of [(''total'', ''c_total: All usual residents'')] ''total''
     = Some ''c_total: All usual residents''
   \<and> match [(''total'', ''c_total: All usual residents'')]
         (\<lambda>a b. length (filter (\<lambda>c. c \<in> set a) b)) (1::nat) ''total'' [''c_total'', ''c_male'']
       = Forced ''c_total: All usual residents''
   \<and> matched_name
         (match [(''total'', ''c_total: All usual residents'')]
            (\<lambda>a b. length (filter (\<lambda>c. c \<in> set a) b)) (1::nat) ''total''
            [''c_total'', ''c_male''])
       = Some ''c_total: All usual residents''
   \<and> scoring_pass [(''total'', ''c_total: All usual residents'')]
         (\<lambda>a b. length (filter (\<lambda>c. c \<in> set a) b)) ''total'' [''c_total'', ''c_male'']
       = ([] :: (string \<times> nat) list)"
proof -
  have h: "map_of [(''total'', ''c_total: All usual residents'')] ''total''
     = Some ''c_total: All usual residents''"
    by simp
  show ?thesis
    using match_override [OF h] h by blast
qed

end
